theory Spec2Isabelle
  imports Main "HOL-Library.Word"
begin

section \<open>Python values, exceptions and the database driver\<close>

text \<open>
  The repository holds two servers over one SingleStore database:
  \<^verbatim>\<open>src/src/singlestore_mcp_server/server.py\<close> (FastAPI routes \<open>list_resources\<close>,
  \<open>get_resource\<close>, \<open>execute_query\<close>) and
  \<^verbatim>\<open>src/singlestore_mcp_server/server.py\<close> (tool-protocol handlers
  \<open>handle_list_resources\<close>, \<open>handle_read_resource\<close>, \<open>handle_call_tool\<close>).
  Both are embedded below, function by function.

  A naive \<open>datetime\<close> carries year, month, day, hour, minute, second, microsecond.
\<close>

datatype datetime = DateTime nat nat nat nat nat nat nat

text \<open>
  The values a result row or a parameter mapping can hold. \<open>PBytes\<close> stands for
  \<open>bytes\<close> and \<open>bytearray\<close> alike (the source tests
  \<open>isinstance(value, (bytes, bytearray))\<close>).
\<close>

datatype pyval =
    PNone
  | PBool bool
  | PInt int
  | PStr string
  | PBytes "8 word list"
  | PDateTime datetime

text \<open>A row is a \<open>dict\<close> from column name to value (\<open>results_type='dict'\<close>), in column order.\<close>

type_synonym row = "(string \<times> pyval) list"

text \<open>What the second argument of \<open>cursor.execute\<close> can be.\<close>

datatype params =
    PDict row
  | PList "pyval list"
  | PTuple "pyval list"
  | PVal pyval

datatype exc =
    HTTPException nat string
  | ValueError string
  | KeyError string
  | AttributeError string
  | TypeError string
  | UnboundLocalError string
  | ValidationError string
  | DriverError string

text \<open>
  The state of a cursor after \<open>execute\<close>: the column description (\<open>None\<close> when the
  statement produced no result set), the rows of the result set and the affected-row count.
\<close>

record cursor =
  description :: "string list option"
  result_rows :: "row list"
  rowcount :: int

text \<open>
  Everything a handler can observe of the outside world during one request:
  whether \<open>s2.connect\<close> raises, whether \<open>conn.cursor()\<close> raises, what
  \<open>cur.execute\<close> does with a statement text and its (optional) parameters, and
  what \<open>str(e)\<close> gives for an exception. Within one request no handler issues the same
  \<open>execute\<close> call twice, so a function of the call describes any driver behaviour.
\<close>

record env =
  s2_connect :: "exc option"
  conn_cursor :: "exc option"
  cur_execute :: "string \<Rightarrow> params option \<Rightarrow> exc + cursor"
  py_str :: "exc \<Rightarrow> string"

text \<open>The effects of a request, in the order they happen.\<close>

datatype event =
    Connect
  | Cursor
  | Execute string "params option"
  | CursorClose
  | Close
  | Log string

text \<open>
  A handler yields what it returns or raises (\<open>Inl\<close> is the exception) and its events.
  Inside a \<open>try\<close> statement the model also tracks whether the local variable \<open>conn\<close> has
  been assigned, since the \<open>finally\<close> clause reads it.
\<close>

type_synonym 'a result = "(exc + 'a) \<times> event list"

type_synonym 'a frame = "(exc + 'a) \<times> bool \<times> event list"

subsection \<open>Python built-ins used by the handlers\<close>

text \<open>Truth value testing, as \<open>if v\<close> and \<open>not v\<close> apply it.\<close>

fun truthy :: "pyval \<Rightarrow> bool" where
  "truthy PNone = False"
| "truthy (PBool b) = b"
| "truthy (PInt i) = (i \<noteq> 0)"
| "truthy (PStr s) = (s \<noteq> [])"
| "truthy (PBytes bs) = (bs \<noteq> [])"
| "truthy (PDateTime d) = True"

fun truthy_params :: "params \<Rightarrow> bool" where
  "truthy_params (PDict d) = (d \<noteq> [])"
| "truthy_params (PList vs) = (vs \<noteq> [])"
| "truthy_params (PTuple vs) = (vs \<noteq> [])"
| "truthy_params (PVal v) = truthy v"

text \<open>\<open>d[k]\<close> on a dict: the value, or \<open>KeyError\<close>.\<close>

definition getitem :: "row \<Rightarrow> string \<Rightarrow> exc + pyval" where
  "getitem d k = (case map_of d k of None \<Rightarrow> Inl (KeyError k) | Some v \<Rightarrow> Inr v)"

text \<open>\<open>d[k] = v\<close> on a dict: an existing key keeps its position, a new key goes last.\<close>

fun setitem :: "row \<Rightarrow> string \<Rightarrow> pyval \<Rightarrow> row" where
  "setitem [] k v = [(k, v)]"
| "setitem ((k', v') # d) k v =
     (if k' = k then (k, v) # d else (k', v') # setitem d k v)"

text \<open>\<open>str(n)\<close> for a non-negative integer, and zero padding as \<open>'%02d'\<close> does it.\<close>

fun str_nat :: "nat \<Rightarrow> string" where
  "str_nat n =
     (if n < 10 then [''0123456789'' ! n]
      else str_nat (n div 10) @ [''0123456789'' ! (n mod 10)])"

declare str_nat.simps [simp del]

definition zero_pad :: "nat \<Rightarrow> nat \<Rightarrow> string" where
  "zero_pad w n = replicate (w - length (str_nat n)) (CHR ''0'') @ str_nat n"

text \<open>\<open>datetime.isoformat()\<close>: \<open>YYYY-MM-DDTHH:MM:SS\<close>, with \<open>.ffffff\<close> when microsecond is not 0.\<close>

fun isoformat :: "datetime \<Rightarrow> string" where
  "isoformat (DateTime y mo d h mi s us) =
     zero_pad 4 y @ ''-'' @ zero_pad 2 mo @ ''-'' @ zero_pad 2 d @ ''T'' @
     zero_pad 2 h @ '':'' @ zero_pad 2 mi @ '':'' @ zero_pad 2 s @
     (if us = 0 then [] else ''.'' @ zero_pad 6 us)"

text \<open>\<open>v.isoformat()\<close> on an arbitrary value: only a datetime has the method.\<close>

fun call_isoformat :: "pyval \<Rightarrow> exc + pyval" where
  "call_isoformat (PDateTime d) = Inr (PStr (isoformat d))"
| "call_isoformat v = Inl (AttributeError ''isoformat'')"

text \<open>
  Decoding bytes as UTF-8. A \<open>str\<close> is modelled by its UTF-8 bytes (a \<open>char\<close> of HOL is
  a byte), so decoding keeps the bytes when they are well formed (one to four bytes per
  code point, no overlong form, no surrogate, nothing above U+10FFFF) and fails otherwise.
\<close>

definition utf8_tail :: "nat \<Rightarrow> bool" where
  "utf8_tail b = (128 \<le> b \<and> b \<le> 191)"

fun utf8_valid :: "nat list \<Rightarrow> bool" where
  "utf8_valid [] = True"
| "utf8_valid (b # bs) =
     (if b < 128 then utf8_valid bs
      else if 194 \<le> b \<and> b \<le> 223
      then (case bs of c # r \<Rightarrow> utf8_tail c \<and> utf8_valid r | _ \<Rightarrow> False)
      else if 224 \<le> b \<and> b \<le> 239
      then (case bs of
              c # d # r \<Rightarrow>
                (if b = 224 then 160 \<le> c \<and> c \<le> 191
                 else if b = 237 then 128 \<le> c \<and> c \<le> 159
                 else utf8_tail c) \<and> utf8_tail d \<and> utf8_valid r
            | _ \<Rightarrow> False)
      else if 240 \<le> b \<and> b \<le> 244
      then (case bs of
              c # d # e # r \<Rightarrow>
                (if b = 240 then 144 \<le> c \<and> c \<le> 191
                 else if b = 244 then 128 \<le> c \<and> c \<le> 143
                 else utf8_tail c) \<and> utf8_tail d \<and> utf8_tail e \<and> utf8_valid r
            | _ \<Rightarrow> False)
      else False)"

definition decode_utf8 :: "8 word list \<Rightarrow> string option" where
  "decode_utf8 bs =
     (if utf8_valid (map unat bs) then Some (map (\<lambda>b. char_of (unat b)) bs) else None)"

text \<open>\<open>cur.fetchone()\<close> and \<open>cur.fetchall()\<close> right after \<open>execute\<close>.\<close>

definition fetchone :: "cursor \<Rightarrow> row option" where
  "fetchone cur = (case result_rows cur of [] \<Rightarrow> None | r # _ \<Rightarrow> Some r)"

definition fetchall :: "cursor \<Rightarrow> row list" where
  "fetchall cur = result_rows cur"

text \<open>\<open>not cur.fetchone()\<close>: true for \<open>None\<close> and for an empty mapping.\<close>

definition not_row :: "row option \<Rightarrow> bool" where
  "not_row r = (case r of None \<Rightarrow> True | Some d \<Rightarrow> d = [])"

text \<open>\<open>if cur.description\<close>: false for \<open>None\<close> and for an empty sequence.\<close>

definition has_description :: "cursor \<Rightarrow> bool" where
  "has_description cur = (case description cur of None \<Rightarrow> False | Some cols \<Rightarrow> cols \<noteq> [])"

text \<open>Sequencing of two computations that may raise: the first exception wins.\<close>

definition and_then :: "exc + 'a \<Rightarrow> ('a \<Rightarrow> exc + 'b) \<Rightarrow> exc + 'b" where
  "and_then r f = (case r of Inl e \<Rightarrow> Inl e | Inr v \<Rightarrow> f v)"

subsection \<open>Results and \<open>json.dumps\<close>\<close>

text \<open>
  The two mappings a handler builds: \<open>{"data": rows}\<close> and \<open>{"affected_rows": n}\<close>.
\<close>

datatype query_result = Data "row list" | AffectedRows int

text \<open>
  \<open>json.dumps\<close> is modelled up to the layout of the text: the text it returns is
  represented by the value it encodes. With no \<open>default\<close> hook it raises \<open>TypeError\<close>
  on the first value that has no JSON form (here: binary values and datetimes).
\<close>

datatype json_text = JsonText query_result

fun json_native :: "pyval \<Rightarrow> bool" where
  "json_native (PBytes bs) = False"
| "json_native (PDateTime d) = False"
| "json_native v = True"

fun type_name :: "pyval \<Rightarrow> string" where
  "type_name PNone = ''NoneType''"
| "type_name (PBool b) = ''bool''"
| "type_name (PInt i) = ''int''"
| "type_name (PStr s) = ''str''"
| "type_name (PBytes bs) = ''bytes''"
| "type_name (PDateTime d) = ''datetime''"

definition json_dumps :: "query_result \<Rightarrow> exc + json_text" where
  "json_dumps obj =
     (case obj of
        AffectedRows n \<Rightarrow> Inr (JsonText obj)
      | Data rows \<Rightarrow>
          (case find (\<lambda>v. \<not> json_native v) (concat (map (map snd) rows)) of
             None \<Rightarrow> Inr (JsonText obj)
           | Some v \<Rightarrow>
               Inl (TypeError (''Object of type '' @ type_name v @ '' is not JSON serializable''))))"

subsection \<open>Statements of a handler\<close>

text \<open>\<open>cur.execute(sql, params)\<close>: the call is recorded whether or not it raises.\<close>

definition execute :: "env \<Rightarrow> string \<Rightarrow> params option \<Rightarrow> cursor result" where
  "execute env sql ps = (cur_execute env sql ps, [Execute sql ps])"

text \<open>
  \<open>with conn.cursor() as cur: body\<close>. When \<open>conn.cursor()\<close> raises the body does not run;
  otherwise the cursor is closed on the way out, whatever the body did.
\<close>

definition with_cursor :: "env \<Rightarrow> 'a result \<Rightarrow> 'a result" where
  "with_cursor env body =
     (case conn_cursor env of
        Some e \<Rightarrow> (Inl e, [])
      | None \<Rightarrow> (fst body, [Cursor] @ snd body @ [CursorClose]))"

text \<open>
  \<open>except Exception as e: logger.error(msg + str(e)); raise HTTPException(status_code=code, detail=str(e))\<close>.
  \<open>HTTPException\<close> derives from \<open>Exception\<close>, so the clause catches it as well.
\<close>

definition except_Exception :: "env \<Rightarrow> string \<Rightarrow> nat \<Rightarrow> 'a frame \<Rightarrow> 'a frame" where
  "except_Exception env msg code fr =
     (case fr of
        (Inl e, bound, t) \<Rightarrow>
          (Inl (HTTPException code (py_str env e)), bound, t @ [Log (msg @ py_str env e)])
      | (Inr v, bound, t) \<Rightarrow> (Inr v, bound, t))"

text \<open>
  \<open>finally: conn.close()\<close>. When \<open>conn\<close> was never assigned, reading it raises
  \<open>UnboundLocalError\<close>, which replaces the exception in flight.
\<close>

definition finally_close :: "'a frame \<Rightarrow> 'a result" where
  "finally_close fr =
     (case fr of
        (out, bound, t) \<Rightarrow>
          if bound then (out, t @ [Close]) else (Inl (UnboundLocalError ''conn''), t))"

section \<open>The connection factory\<close>

text \<open>
  \<open>get_db_connection\<close>: any exception of the \<open>s2.connect\<close> call (the port conversion
  included) is logged and replaced by \<open>HTTPException(500, "Database connection failed")\<close>.
\<close>

definition get_db_connection :: "env \<Rightarrow> unit result" where
  "get_db_connection env =
     (case s2_connect env of
        None \<Rightarrow> (Inr (), [Connect])
      | Some e \<Rightarrow>
          (Inl (HTTPException 500 ''Database connection failed''),
           [Log (''Database connection error: '' @ py_str env e)]))"

text \<open>
  \<open>conn = get_db_connection()\<close> as the first statement of a \<open>try\<close> suite, followed by the
  rest of the suite: \<open>conn\<close> is bound only when the call returned.
\<close>

definition assign_conn :: "env \<Rightarrow> 'a result \<Rightarrow> 'a frame" where
  "assign_conn env rest =
     (case get_db_connection env of
        (Inl e, t) \<Rightarrow> (Inl e, False, t)
      | (Inr u, t) \<Rightarrow> (fst rest, True, t @ snd rest))"

section \<open>The table lister\<close>

text \<open>The statement texts, with runs of white space written as one blank.\<close>

definition TABLES_QUERY :: string where
  "TABLES_QUERY =
     ''SELECT TABLE_NAME, TABLE_TYPE, TABLE_COMMENT, CREATE_TIME FROM information_schema.TABLES WHERE TABLE_SCHEMA = DATABASE()''"

definition EXISTS_QUERY :: string where
  "EXISTS_QUERY =
     ''SELECT TABLE_NAME FROM information_schema.TABLES WHERE TABLE_SCHEMA = DATABASE() AND TABLE_NAME = %s''"

record resource =
  res_id :: string
  res_type :: string
  attributes :: row

text \<open>
  The HTTP server's own model \<open>Resource(id=..., type=..., attributes=...)\<close>. The field
  \<open>id\<close> is declared \<open>str\<close>: pydantic 2 in its default mode takes a string as it
  is, decodes a binary value as UTF-8 (failing when it is not well formed) and rejects
  every other value.
\<close>

definition Resource :: "pyval \<Rightarrow> string \<Rightarrow> row \<Rightarrow> exc + resource" where
  "Resource ident ty attrs =
     (case ident of
        PStr s \<Rightarrow> Inr \<lparr>res_id = s, res_type = ty, attributes = attrs\<rparr>
      | PBytes bs \<Rightarrow>
          (case decode_utf8 bs of
             Some s \<Rightarrow> Inr \<lparr>res_id = s, res_type = ty, attributes = attrs\<rparr>
           | None \<Rightarrow> Inl (ValidationError ''id''))
      | _ \<Rightarrow> Inl (ValidationError ''id''))"

text \<open>The body of \<open>for table in tables\<close>, its subscripts evaluated in source order.\<close>

definition table_resource :: "row \<Rightarrow> exc + resource" where
  "table_resource table =
     and_then (getitem table ''TABLE_NAME'') (\<lambda>ident.
     and_then (getitem table ''TABLE_NAME'') (\<lambda>name.
     and_then (getitem table ''TABLE_TYPE'') (\<lambda>ty.
     and_then (getitem table ''TABLE_COMMENT'') (\<lambda>comment.
     and_then (getitem table ''CREATE_TIME'') (\<lambda>create_time.
     and_then (if truthy create_time
               then and_then (getitem table ''CREATE_TIME'') call_isoformat
               else Inr PNone) (\<lambda>created_at.
       Resource ident ''table''
         [(''name'', name), (''type'', ty), (''comment'', comment),
          (''created_at'', created_at)]))))))"

fun append_resources :: "resource list \<Rightarrow> row list \<Rightarrow> exc + resource list" where
  "append_resources resources [] = Inr resources"
| "append_resources resources (table # tables) =
     (case table_resource table of
        Inl e \<Rightarrow> Inl e
      | Inr resource \<Rightarrow> append_resources (resources @ [resource]) tables)"

text \<open>HTTP \<open>GET /resources\<close>: the \<open>with\<close> block, the \<open>try\<close> suite, the handler.\<close>

definition list_resources_with :: "env \<Rightarrow> resource list result" where
  "list_resources_with env =
     (case execute env TABLES_QUERY None of
        (Inl e, t) \<Rightarrow> (Inl e, t)
      | (Inr cur, t) \<Rightarrow> (append_resources [] (fetchall cur), t))"

definition list_resources_try :: "env \<Rightarrow> resource list frame" where
  "list_resources_try env = assign_conn env (with_cursor env (list_resources_with env))"

definition list_resources :: "env \<Rightarrow> resource list result" where
  "list_resources env =
     finally_close
       (except_Exception env ''Error listing resources: '' 500 (list_resources_try env))"

text \<open>
  The tool server builds its resources with the \<open>mcp\<close> library's \<open>types.Resource\<close>,
  a model whose required fields are \<open>uri\<close> and \<open>name\<close>. The call
  \<open>types.Resource(id=..., type=..., attributes=...)\<close> passes neither, so validation
  fails whatever the three arguments are.
\<close>

record mcp_resource =
  mcp_uri :: string
  mcp_name :: string

definition types_Resource :: "pyval \<Rightarrow> string \<Rightarrow> row \<Rightarrow> exc + mcp_resource" where
  "types_Resource ident ty attrs = Inl (ValidationError ''uri'')"

text \<open>
  Tool protocol \<open>list_resources\<close>: the loop body with the same subscripts in the same
  order, the same suite, and no \<open>except\<close> clause.
\<close>

definition handle_table_resource :: "row \<Rightarrow> exc + mcp_resource" where
  "handle_table_resource table =
     and_then (getitem table ''TABLE_NAME'') (\<lambda>ident.
     and_then (getitem table ''TABLE_NAME'') (\<lambda>name.
     and_then (getitem table ''TABLE_TYPE'') (\<lambda>ty.
     and_then (getitem table ''TABLE_COMMENT'') (\<lambda>comment.
     and_then (getitem table ''CREATE_TIME'') (\<lambda>create_time.
     and_then (if truthy create_time
               then and_then (getitem table ''CREATE_TIME'') call_isoformat
               else Inr PNone) (\<lambda>created_at.
       types_Resource ident ''table''
         [(''name'', name), (''type'', ty), (''comment'', comment),
          (''created_at'', created_at)]))))))"

fun handle_append_resources :: "mcp_resource list \<Rightarrow> row list \<Rightarrow> exc + mcp_resource list"
  where
  "handle_append_resources resources [] = Inr resources"
| "handle_append_resources resources (table # tables) =
     (case handle_table_resource table of
        Inl e \<Rightarrow> Inl e
      | Inr resource \<Rightarrow> handle_append_resources (resources @ [resource]) tables)"

definition handle_list_resources_with :: "env \<Rightarrow> mcp_resource list result" where
  "handle_list_resources_with env =
     (case execute env TABLES_QUERY None of
        (Inl e, t) \<Rightarrow> (Inl e, t)
      | (Inr cur, t) \<Rightarrow> (handle_append_resources [] (fetchall cur), t))"

definition handle_list_resources_try :: "env \<Rightarrow> mcp_resource list frame" where
  "handle_list_resources_try env =
     assign_conn env (with_cursor env (handle_list_resources_with env))"

definition handle_list_resources :: "env \<Rightarrow> mcp_resource list result" where
  "handle_list_resources env = finally_close (handle_list_resources_try env)"

section \<open>The table reader\<close>

definition select_all :: "string \<Rightarrow> string" where
  "select_all resource_id = ''SELECT * FROM '' @ resource_id"

definition binary_placeholder :: "8 word list \<Rightarrow> pyval" where
  "binary_placeholder bs = PStr (''<binary data length='' @ str_nat (length bs) @ ''>'')"

text \<open>
  \<open>for key, value in row.items(): if isinstance(value, (bytes, bytearray)): row[key] = ...\<close>,
  the items taken from the row as it was fetched.
\<close>

fun mask_items :: "(string \<times> pyval) list \<Rightarrow> row \<Rightarrow> row" where
  "mask_items [] row = row"
| "mask_items ((key, val) # items) row =
     mask_items items
       (case val of PBytes bs \<Rightarrow> setitem row key (binary_placeholder bs) | _ \<Rightarrow> row)"

definition mask_row :: "row \<Rightarrow> row" where
  "mask_row row = mask_items row row"

text \<open>HTTP \<open>GET /resources/{resource_id}\<close>.\<close>

definition get_resource_with :: "env \<Rightarrow> string \<Rightarrow> query_result result" where
  "get_resource_with env resource_id =
     (case execute env EXISTS_QUERY (Some (PTuple [PStr resource_id])) of
        (Inl e, t) \<Rightarrow> (Inl e, t)
      | (Inr cur, t) \<Rightarrow>
          if not_row (fetchone cur)
          then (Inl (HTTPException 404 ''Resource not found''), t)
          else
            (case execute env (select_all resource_id) None of
               (Inl e, t') \<Rightarrow> (Inl e, t @ t')
             | (Inr cur', t') \<Rightarrow> (Inr (Data (map mask_row (fetchall cur'))), t @ t')))"

definition get_resource_try :: "env \<Rightarrow> string \<Rightarrow> query_result frame" where
  "get_resource_try env resource_id =
     assign_conn env (with_cursor env (get_resource_with env resource_id))"

definition get_resource :: "env \<Rightarrow> string \<Rightarrow> query_result result" where
  "get_resource env resource_id =
     finally_close
       (except_Exception env (''Error getting resource '' @ resource_id @ '': '') 500
          (get_resource_try env resource_id))"

text \<open>
  Tool protocol \<open>read_resource\<close>: the rows go to \<open>json.dumps\<close> as fetched.
  \<open>types.ResourceContent\<close> is taken as a plain record of the two fields the call names.
\<close>

record resource_content =
  rc_type :: string
  rc_content :: json_text

definition handle_read_resource_with :: "env \<Rightarrow> string \<Rightarrow> resource_content result" where
  "handle_read_resource_with env resource_id =
     (case execute env EXISTS_QUERY (Some (PTuple [PStr resource_id])) of
        (Inl e, t) \<Rightarrow> (Inl e, t)
      | (Inr cur, t) \<Rightarrow>
          if not_row (fetchone cur)
          then (Inl (ValueError ''Resource not found''), t)
          else
            (case execute env (select_all resource_id) None of
               (Inl e, t') \<Rightarrow> (Inl e, t @ t')
             | (Inr cur', t') \<Rightarrow>
                 (and_then (json_dumps (Data (fetchall cur')))
                    (\<lambda>txt. Inr \<lparr>rc_type = ''application/json'', rc_content = txt\<rparr>),
                  t @ t')))"

definition handle_read_resource_try :: "env \<Rightarrow> string \<Rightarrow> resource_content frame" where
  "handle_read_resource_try env resource_id =
     assign_conn env (with_cursor env (handle_read_resource_with env resource_id))"

definition handle_read_resource :: "env \<Rightarrow> string \<Rightarrow> resource_content result" where
  "handle_read_resource env resource_id =
     finally_close (handle_read_resource_try env resource_id)"

section \<open>The query executor\<close>

text \<open>Truth value of an optional parameter object: \<open>None\<close> is false.\<close>

definition truthy_opt :: "params option \<Rightarrow> bool" where
  "truthy_opt p = (case p of None \<Rightarrow> False | Some v \<Rightarrow> truthy_params v)"

text \<open>HTTP \<open>POST /query\<close> with a \<open>QueryRequest\<close> body.\<close>

record query_request =
  query :: string
  parameters :: "row option"

definition execute_query_with :: "env \<Rightarrow> query_request \<Rightarrow> query_result result" where
  "execute_query_with env request =
     (case (if truthy_opt (map_option PDict (parameters request))
            then execute env (query request) (map_option PDict (parameters request))
            else execute env (query request) None) of
        (Inl e, t) \<Rightarrow> (Inl e, t)
      | (Inr cur, t) \<Rightarrow>
          if has_description cur
          then (Inr (Data (fetchall cur)), t)
          else (Inr (AffectedRows (rowcount cur)), t))"

definition execute_query_try :: "env \<Rightarrow> query_request \<Rightarrow> query_result frame" where
  "execute_query_try env request =
     assign_conn env (with_cursor env (execute_query_with env request))"

definition execute_query :: "env \<Rightarrow> query_request \<Rightarrow> query_result result" where
  "execute_query env request =
     finally_close
       (except_Exception env ''Query execution error: '' 400 (execute_query_try env request))"

text \<open>
  Tool protocol \<open>call_tool\<close>. \<open>arguments\<close> is a dict that may or may not hold
  \<open>"query"\<close> and \<open>"parameters"\<close>; \<open>arguments.get\<close> gives \<open>None\<close> for a missing key,
  \<open>arguments["query"]\<close> raises \<open>KeyError\<close>.
\<close>

record tool_arguments =
  arg_query :: "string option"
  arg_parameters :: "params option"

record text_content =
  tc_type :: string
  tc_text :: json_text

definition handle_call_tool_with :: "env \<Rightarrow> tool_arguments \<Rightarrow> text_content list result" where
  "handle_call_tool_with env arguments =
     (case (if truthy_opt (arg_parameters arguments)
            then (case arg_query arguments of
                    None \<Rightarrow> (Inl (KeyError ''query''), [])
                  | Some q \<Rightarrow> execute env q (arg_parameters arguments))
            else (case arg_query arguments of
                    None \<Rightarrow> (Inl (KeyError ''query''), [])
                  | Some q \<Rightarrow> execute env q None)) of
        (Inl e, t) \<Rightarrow> (Inl e, t)
      | (Inr cur, t) \<Rightarrow>
          if has_description cur
          then (and_then (json_dumps (Data (fetchall cur)))
                  (\<lambda>txt. Inr [\<lparr>tc_type = ''text'', tc_text = txt\<rparr>]), t)
          else (and_then (json_dumps (AffectedRows (rowcount cur)))
                  (\<lambda>txt. Inr [\<lparr>tc_type = ''text'', tc_text = txt\<rparr>]), t))"

definition handle_call_tool_try :: "env \<Rightarrow> tool_arguments \<Rightarrow> text_content list frame" where
  "handle_call_tool_try env arguments =
     assign_conn env (with_cursor env (handle_call_tool_with env arguments))"

definition handle_call_tool :: "env \<Rightarrow> string \<Rightarrow> tool_arguments \<Rightarrow> text_content list result" where
  "handle_call_tool env name arguments =
     (if name \<noteq> ''execute_query''
      then (Inl (ValueError (''Unknown tool: '' @ name)), [])
      else finally_close (handle_call_tool_try env arguments))"

section \<open>The HTTP framework and observations on a request\<close>

text \<open>
  The status FastAPI answers with when a route handler raises: the status code of an
  \<open>HTTPException\<close>, and 500 (its handler for uncaught exceptions) for any other
  exception. When the handler returns, the status depends on encoding the returned value
  as a response body, which is not modelled: \<open>http_status\<close> is \<open>None\<close> there.
\<close>

definition http_status :: "exc + 'a \<Rightarrow> nat option" where
  "http_status out =
     (case out of
        Inr v \<Rightarrow> None
      | Inl (HTTPException code detail) \<Rightarrow> Some code
      | Inl e \<Rightarrow> Some 500)"

text \<open>The statements handed to the driver, in order, each with its parameter object.\<close>

fun executed :: "event list \<Rightarrow> (string \<times> params option) list" where
  "executed [] = []"
| "executed (Execute sql ps # t) = (sql, ps) # executed t"
| "executed (ev # t) = executed t"

text \<open>
  A request has released its connection when every connection it opened was closed:
  it opened at most one, closed as many as it opened, and if it opened one, closing it
  was the last thing it did.
\<close>

definition released :: "event list \<Rightarrow> bool" where
  "released t =
     (count_list t Connect \<le> 1 \<and> count_list t Close = count_list t Connect \<and>
      (count_list t Connect = 0 \<or> last t = Close))"

text \<open>
  The table reader's view of a missing table: the existence check on the metadata views
  runs and answers with no row.
\<close>

definition table_absent :: "env \<Rightarrow> string \<Rightarrow> bool" where
  "table_absent env resource_id =
     (case cur_execute env EXISTS_QUERY (Some (PTuple [PStr resource_id])) of
        Inl e \<Rightarrow> False
      | Inr cur \<Rightarrow> not_row (fetchone cur))"

section \<open>A sample database\<close>

text \<open>
  One schema with the tables \<open>files\<close> (a binary column) and \<open>notes\<close>, used to run the
  handlers on concrete requests. \<open>sample_str\<close> renders an \<open>HTTPException\<close> as
  status, colon, detail, and any other exception as its message.
\<close>

fun sample_str :: "exc \<Rightarrow> string" where
  "sample_str (HTTPException code detail) = str_nat code @ '': '' @ detail"
| "sample_str (ValueError m) = m"
| "sample_str (KeyError m) = m"
| "sample_str (AttributeError m) = m"
| "sample_str (TypeError m) = m"
| "sample_str (UnboundLocalError m) = m"
| "sample_str (ValidationError m) = m"
| "sample_str (DriverError m) = m"

definition sample_tables :: "row list" where
  "sample_tables =
     [[(''TABLE_NAME'', PStr ''files''), (''TABLE_TYPE'', PStr ''BASE TABLE''),
       (''TABLE_COMMENT'', PStr ''uploads''),
       (''CREATE_TIME'', PDateTime (DateTime 2024 3 20 10 0 0 0))],
      [(''TABLE_NAME'', PStr ''notes''), (''TABLE_TYPE'', PStr ''VIEW''),
       (''TABLE_COMMENT'', PStr []), (''CREATE_TIME'', PNone)]]"

definition sample_execute :: "string \<Rightarrow> params option \<Rightarrow> exc + cursor" where
  "sample_execute sql ps =
     (if sql = EXISTS_QUERY \<and> ps = Some (PTuple [PStr ''files''])
      then Inr \<lparr>description = Some [''TABLE_NAME''],
                result_rows = [[(''TABLE_NAME'', PStr ''files'')]], rowcount = 1\<rparr>
      else if sql = EXISTS_QUERY
      then Inr \<lparr>description = Some [''TABLE_NAME''], result_rows = [], rowcount = 0\<rparr>
      else if sql = TABLES_QUERY \<and> ps = None
      then Inr \<lparr>description =
                  Some [''TABLE_NAME'', ''TABLE_TYPE'', ''TABLE_COMMENT'', ''CREATE_TIME''],
                result_rows = sample_tables, rowcount = 2\<rparr>
      else if sql = ''SELECT * FROM files'' \<and> ps = None
      then Inr \<lparr>description = Some [''id'', ''body''],
                result_rows = [[(''id'', PInt 1), (''body'', PBytes [1, 2, 3])]],
                rowcount = 1\<rparr>
      else if sql = ''SELECT NOW()'' \<and> ps = None
      then Inr \<lparr>description = Some [''NOW()''],
                result_rows = [[(''NOW()'', PDateTime (DateTime 2024 3 20 10 0 0 0))]],
                rowcount = 1\<rparr>
      else if sql = ''SELECT id FROM files WHERE id > %(low)s'' \<and>
              ps = Some (PDict [(''low'', PInt 0)])
      then Inr \<lparr>description = Some [''id''], result_rows = [[(''id'', PInt 1)]],
                rowcount = 1\<rparr>
      else if sql = ''DELETE FROM notes'' \<and> ps = None
      then Inr \<lparr>description = None, result_rows = [], rowcount = 3\<rparr>
      else Inl (DriverError ''You have an error in your SQL syntax''))"

definition sample_env :: env where
  "sample_env =
     \<lparr>s2_connect = None, conn_cursor = None, cur_execute = sample_execute,
      py_str = sample_str\<rparr>"

text \<open>The same database when it cannot be reached.\<close>

definition offline_env :: env where
  "offline_env = sample_env\<lparr>s2_connect := Some (DriverError ''Connection refused'')\<rparr>"

section \<open>What the specification describes\<close>

text \<open>
  A row of \<open>information_schema.TABLES\<close> as the metadata query selects it: the table
  name, the declared table type, the comment and the creation timestamp, which may be
  \<open>NULL\<close>. \<open>metadata_row\<close> is the mapping the driver returns for it.
\<close>

record table_info =
  table_name :: string
  table_type :: pyval
  table_comment :: pyval
  create_time :: "datetime option"

definition metadata_row :: "table_info \<Rightarrow> row" where
  "metadata_row info =
     [(''TABLE_NAME'', PStr (table_name info)), (''TABLE_TYPE'', table_type info),
      (''TABLE_COMMENT'', table_comment info),
      (''CREATE_TIME'', case create_time info of None \<Rightarrow> PNone | Some d \<Rightarrow> PDateTime d)]"

text \<open>
  The Resource the specification asks for: id the table name, type the constant
  \<open>table\<close>, attributes name, declared type, comment and \<open>created_at\<close>, the timestamp
  in ISO-8601 form or null when it is absent.
\<close>

definition described_resource :: "table_info \<Rightarrow> resource" where
  "described_resource info =
     \<lparr>res_id = table_name info, res_type = ''table'',
      attributes =
        [(''name'', PStr (table_name info)), (''type'', table_type info),
         (''comment'', table_comment info),
         (''created_at'',
          case create_time info of None \<Rightarrow> PNone | Some d \<Rightarrow> PStr (isoformat d))]\<rparr>"

text \<open>
  The post-processing the specification asks for on every value of a row: a binary value
  becomes the placeholder with its byte length, any other value stays.
\<close>

definition mask_value :: "pyval \<Rightarrow> pyval" where
  "mask_value v = (case v of PBytes bs \<Rightarrow> binary_placeholder bs | _ \<Rightarrow> v)"

text \<open>The events of a \<open>with\<close> block neither open nor close a connection.\<close>

definition no_conn_events :: "event list \<Rightarrow> bool" where
  "no_conn_events t = (count_list t Connect = 0 \<and> count_list t Close = 0)"

section \<open>Auxiliary facts\<close>

lemmas frame_defs = assign_conn_def get_db_connection_def with_cursor_def
  except_Exception_def finally_close_def execute_def

lemmas sample_defs = sample_env_def offline_env_def sample_execute_def sample_tables_def
  EXISTS_QUERY_def TABLES_QUERY_def select_all_def

lemma str_nat_404: "str_nat 404 = ''404''"
  by code_simp

lemma str_nat_3: "str_nat (Suc (Suc (Suc 0))) = ''3''"
  by code_simp

subsection \<open>Connections\<close>

lemma with_cursor_no_conn:
  "no_conn_events (snd body) \<Longrightarrow> no_conn_events (snd (with_cursor env body))"
  by (simp add: with_cursor_def no_conn_events_def split: option.splits)

lemma finally_released:
  "no_conn_events (snd rest) \<Longrightarrow> released (snd (finally_close (assign_conn env rest)))"
  by (cases rest)
     (simp add: frame_defs no_conn_events_def released_def split: option.splits)

lemma except_finally_released:
  "no_conn_events (snd rest) \<Longrightarrow>
   released (snd (finally_close (except_Exception env msg code (assign_conn env rest))))"
  by (cases rest; cases "fst rest")
     (simp_all add: frame_defs no_conn_events_def released_def split: option.splits)

lemma execute_no_conn: "no_conn_events (snd (execute env sql ps))"
  by (simp add: execute_def no_conn_events_def)

lemma list_resources_with_no_conn: "no_conn_events (snd (list_resources_with env))"
  by (simp add: list_resources_with_def execute_def no_conn_events_def split: sum.splits)

lemma handle_list_resources_with_no_conn:
  "no_conn_events (snd (handle_list_resources_with env))"
  by (simp add: handle_list_resources_with_def execute_def no_conn_events_def
      split: sum.splits)

lemma get_resource_with_no_conn: "no_conn_events (snd (get_resource_with env rid))"
  by (simp add: get_resource_with_def execute_def no_conn_events_def split: sum.splits)

lemma handle_read_resource_with_no_conn:
  "no_conn_events (snd (handle_read_resource_with env rid))"
  by (simp add: handle_read_resource_with_def execute_def no_conn_events_def
      split: sum.splits)

lemma execute_query_with_no_conn: "no_conn_events (snd (execute_query_with env request))"
  by (simp add: execute_query_with_def execute_def no_conn_events_def split: sum.splits)

lemma handle_call_tool_with_no_conn:
  "no_conn_events (snd (handle_call_tool_with env arguments))"
  by (simp add: handle_call_tool_with_def execute_def no_conn_events_def
      split: sum.splits option.splits)

subsection \<open>The table lister on metadata rows\<close>

lemma table_resource_metadata_row:
  "table_resource (metadata_row info) = Inr (described_resource info)"
  by (simp add: table_resource_def metadata_row_def described_resource_def getitem_def
      and_then_def Resource_def split: option.splits)

lemma append_resources_metadata:
  "append_resources acc (map metadata_row infos) = Inr (acc @ map described_resource infos)"
  by (induction infos arbitrary: acc) (simp_all add: table_resource_metadata_row)

subsection \<open>The HTTP table reader masks binary values\<close>

lemma setitem_fresh_prefix:
  "k \<notin> fst ` set pre \<Longrightarrow> setitem (pre @ (k, v) # post) k v' = pre @ (k, v') # post"
  by (induction pre) auto

lemma mask_items_suffix:
  "distinct (map fst (pre @ items)) \<Longrightarrow>
   mask_items items (map (\<lambda>(k, v). (k, mask_value v)) pre @ items) =
   map (\<lambda>(k, v). (k, mask_value v)) (pre @ items)"
proof (induction items arbitrary: pre)
  case Nil
  then show ?case by simp
next
  case (Cons item items)
  obtain k v where item: "item = (k, v)" by (cases item)
  let ?f = "\<lambda>(k, v). (k, mask_value v)"
  from Cons.prems item have fresh: "k \<notin> fst ` set (map ?f pre)"
    by (auto simp: image_iff split: prod.splits)
  have step:
    "(case v of
        PBytes bs \<Rightarrow> setitem (map ?f pre @ (k, v) # items) k (binary_placeholder bs)
      | _ \<Rightarrow> map ?f pre @ (k, v) # items) = map ?f (pre @ [(k, v)]) @ items"
    using setitem_fresh_prefix [OF fresh]
    by (cases v) (simp_all add: mask_value_def)
  from Cons.prems item have "distinct (map fst ((pre @ [(k, v)]) @ items))" by simp
  from Cons.IH [OF this] show ?case
    using step item by simp
qed

text \<open>
  On a row whose column names are distinct (as the keys of a dict are), the loop of
  \<open>get_resource\<close> replaces exactly the binary values, each by its placeholder.
\<close>

lemma mask_row_distinct:
  "distinct (map fst row) \<Longrightarrow> mask_row row = map (\<lambda>(k, v). (k, mask_value v)) row"
  using mask_items_suffix [of "[]" row] by (simp add: mask_row_def)

subsection \<open>Absent tables and result shapes, for every driver\<close>

text \<open>
  Whenever the existence check answers with no row, \<open>GET /resources/{resource_id}\<close>
  answers with status 500: the \<open>except Exception\<close> clause catches the
  \<open>HTTPException(404)\<close> raised two lines above it.
\<close>

lemma absent_table_status:
  "s2_connect env = None \<Longrightarrow> conn_cursor env = None \<Longrightarrow> table_absent env rid \<Longrightarrow>
   fst (get_resource env rid) =
     Inl (HTTPException 500 (py_str env (HTTPException 404 ''Resource not found'')))"
  by (auto simp: get_resource_def get_resource_try_def get_resource_with_def
      table_absent_def frame_defs split: sum.splits)

text \<open>
  Once the statement has run, the HTTP executor returns the shape the column description
  selects; the tool executor hands that same shape to \<open>json.dumps\<close>.
\<close>

lemma execute_query_shape:
  "s2_connect env = None \<Longrightarrow> conn_cursor env = None \<Longrightarrow>
   executed (snd (execute_query env request)) = [(sql, ps)] \<Longrightarrow>
   cur_execute env sql ps = Inr cur \<Longrightarrow>
   fst (execute_query env request) =
     Inr (if has_description cur then Data (result_rows cur) else AffectedRows (rowcount cur))"
  by (auto simp: execute_query_def execute_query_try_def execute_query_with_def fetchall_def
      frame_defs split: option.splits sum.splits prod.splits if_splits)

lemma handle_call_tool_shape:
  "s2_connect env = None \<Longrightarrow> conn_cursor env = None \<Longrightarrow>
   executed (snd (handle_call_tool env ''execute_query'' arguments)) = [(sql, ps)] \<Longrightarrow>
   cur_execute env sql ps = Inr cur \<Longrightarrow>
   fst (handle_call_tool env ''execute_query'' arguments) =
     and_then
       (json_dumps
          (if has_description cur then Data (result_rows cur) else AffectedRows (rowcount cur)))
       (\<lambda>txt. Inr [\<lparr>tc_type = ''text'', tc_text = txt\<rparr>])"
  by (auto simp: handle_call_tool_def handle_call_tool_try_def handle_call_tool_with_def
      fetchall_def frame_defs split: option.splits sum.splits prod.splits if_splits)

text \<open>
  When \<open>s2.connect\<close> raises, every handler with an \<open>except\<close> clause ends in the
  \<open>UnboundLocalError\<close> of its \<open>finally\<close> clause, not in the \<open>HTTPException\<close> of
  \<open>get_db_connection\<close>.
\<close>

lemma connection_failure_outcome:
  "s2_connect env = Some e \<Longrightarrow>
   fst (list_resources env) = Inl (UnboundLocalError ''conn'') \<and>
   fst (get_resource env rid) = Inl (UnboundLocalError ''conn'') \<and>
   fst (execute_query env request) = Inl (UnboundLocalError ''conn'')"
  by (simp add: list_resources_def list_resources_try_def get_resource_def
      get_resource_try_def execute_query_def execute_query_try_def frame_defs)

subsection \<open>The two listers, for every driver\<close>

text \<open>
  When the metadata query returns the rows of the tables \<open>infos\<close>, the HTTP lister
  returns one Resource per row, in row order, each as the specification describes it.
\<close>

lemma list_resources_described:
  assumes "s2_connect env = None" and "conn_cursor env = None"
    and "cur_execute env TABLES_QUERY None = Inr cur"
    and "result_rows cur = map metadata_row infos"
  shows "fst (list_resources env) = Inr (map described_resource infos)"
  using assms
  by (simp add: list_resources_def list_resources_try_def list_resources_with_def
      frame_defs fetchall_def append_resources_metadata)

text \<open>The tool lister fails on the first row, whatever the row holds.\<close>

lemma handle_table_resource_metadata_row:
  "handle_table_resource (metadata_row info) = Inl (ValidationError ''uri'')"
  by (simp add: handle_table_resource_def metadata_row_def getitem_def and_then_def
      types_Resource_def split: option.splits)

lemma handle_list_resources_fails:
  assumes "s2_connect env = None" and "conn_cursor env = None"
    and "cur_execute env TABLES_QUERY None = Inr cur"
    and "result_rows cur = map metadata_row infos" and "infos \<noteq> []"
  shows "fst (handle_list_resources env) = Inl (ValidationError ''uri'')"
proof -
  from \<open>infos \<noteq> []\<close> obtain info rest where "infos = info # rest"
    by (cases infos) auto
  then have "handle_append_resources [] (map metadata_row infos) =
      Inl (ValidationError ''uri'')"
    by (simp add: handle_table_resource_metadata_row)
  with assms show ?thesis
    by (simp add: handle_list_resources_def handle_list_resources_try_def
        handle_list_resources_with_def frame_defs fetchall_def)
qed

subsection \<open>The order of the table reader's statements, for every driver\<close>

text \<open>
  On both front-ends the statements of a read request are none, the existence check
  alone, or the check followed by the read. When the check answers with no row the read
  is never executed; once connection and cursor are open the tool handler then raises
  \<open>ValueError("Resource not found")\<close>, and the HTTP handler raises the status 500 that
  its \<open>except\<close> clause makes of the \<open>HTTPException(404)\<close>.
\<close>

lemma read_follows_check:
  "(executed (snd (get_resource env rid)) = [] \<or>
    executed (snd (get_resource env rid)) = [(EXISTS_QUERY, Some (PTuple [PStr rid]))] \<or>
    executed (snd (get_resource env rid)) =
      [(EXISTS_QUERY, Some (PTuple [PStr rid])), (select_all rid, None)]) \<and>
   (executed (snd (handle_read_resource env rid)) = [] \<or>
    executed (snd (handle_read_resource env rid)) =
      [(EXISTS_QUERY, Some (PTuple [PStr rid]))] \<or>
    executed (snd (handle_read_resource env rid)) =
      [(EXISTS_QUERY, Some (PTuple [PStr rid])), (select_all rid, None)]) \<and>
   (table_absent env rid \<longrightarrow>
      (executed (snd (get_resource env rid)) = [] \<or>
       executed (snd (get_resource env rid)) = [(EXISTS_QUERY, Some (PTuple [PStr rid]))]) \<and>
      (executed (snd (handle_read_resource env rid)) = [] \<or>
       executed (snd (handle_read_resource env rid)) =
         [(EXISTS_QUERY, Some (PTuple [PStr rid]))])) \<and>
   (table_absent env rid \<and> s2_connect env = None \<and> conn_cursor env = None \<longrightarrow>
      executed (snd (get_resource env rid)) = [(EXISTS_QUERY, Some (PTuple [PStr rid]))] \<and>
      fst (get_resource env rid) =
        Inl (HTTPException 500 (py_str env (HTTPException 404 ''Resource not found''))) \<and>
      executed (snd (handle_read_resource env rid)) =
        [(EXISTS_QUERY, Some (PTuple [PStr rid]))] \<and>
      fst (handle_read_resource env rid) = Inl (ValueError ''Resource not found''))"
proof -
  have http:
    "executed (snd (get_resource env rid)) =
       (if s2_connect env = None \<and> conn_cursor env = None
        then (case cur_execute env EXISTS_QUERY (Some (PTuple [PStr rid])) of
                Inl e \<Rightarrow> [(EXISTS_QUERY, Some (PTuple [PStr rid]))]
              | Inr cur \<Rightarrow>
                  if not_row (fetchone cur)
                  then [(EXISTS_QUERY, Some (PTuple [PStr rid]))]
                  else [(EXISTS_QUERY, Some (PTuple [PStr rid])), (select_all rid, None)])
        else [])"
    by (auto simp: get_resource_def get_resource_try_def get_resource_with_def frame_defs
        split: option.splits sum.splits)
  have tool:
    "executed (snd (handle_read_resource env rid)) =
       (if s2_connect env = None \<and> conn_cursor env = None
        then (case cur_execute env EXISTS_QUERY (Some (PTuple [PStr rid])) of
                Inl e \<Rightarrow> [(EXISTS_QUERY, Some (PTuple [PStr rid]))]
              | Inr cur \<Rightarrow>
                  if not_row (fetchone cur)
                  then [(EXISTS_QUERY, Some (PTuple [PStr rid]))]
                  else [(EXISTS_QUERY, Some (PTuple [PStr rid])), (select_all rid, None)])
        else [])"
    by (auto simp: handle_read_resource_def handle_read_resource_try_def
        handle_read_resource_with_def frame_defs split: option.splits sum.splits)
  have raised:
    "fst (get_resource env rid) =
       Inl (HTTPException 500 (py_str env (HTTPException 404 ''Resource not found''))) \<and>
     fst (handle_read_resource env rid) = Inl (ValueError ''Resource not found'')"
    if "table_absent env rid" "s2_connect env = None" "conn_cursor env = None"
    using that absent_table_status [of env rid]
    by (auto simp: handle_read_resource_def handle_read_resource_try_def
        handle_read_resource_with_def table_absent_def frame_defs split: sum.splits)
  show ?thesis
    using raised
    by (auto simp: http tool table_absent_def split: sum.splits)
qed

section \<open>The claims\<close>

text \<open>
  C1. Claimed: for every table name absent from the current schema,
  \<open>GET /resources/{resource_id}\<close> answers with status 404. The handler does raise
  \<open>HTTPException(404, "Resource not found")\<close>, but inside the \<open>try\<close> whose
  \<open>except Exception\<close> clause turns every exception into status 500. On the sample
  database the table \<open>ghost\<close> is absent and the request ends as follows.
\<close>

theorem absent_table_answers_500:
  "table_absent sample_env ''ghost'' \<and>
   get_resource sample_env ''ghost'' =
     (Inl (HTTPException 500 ''404: Resource not found''),
      [Connect, Cursor, Execute EXISTS_QUERY (Some (PTuple [PStr ''ghost''])), CursorClose,
       Log ''Error getting resource ghost: 404: Resource not found'', Close]) \<and>
   http_status (fst (get_resource sample_env ''ghost'')) = Some 500"
  by (simp add: get_resource_def get_resource_try_def get_resource_with_def table_absent_def
      frame_defs sample_defs not_row_def fetchone_def http_status_def str_nat_404)

text \<open>
  C2. For every request to each of the six handlers, whatever the driver does (connecting,
  opening the cursor or executing may raise) and whatever the handler returns or raises,
  the request has released its connection when the handler finishes: a connection that
  was opened is closed as the last effect, and when \<open>s2.connect\<close> fails no connection
  exists and none is left open.
\<close>

theorem connection_released:
  "released (snd (list_resources env)) \<and>
   released (snd (get_resource env rid)) \<and>
   released (snd (execute_query env request)) \<and>
   released (snd (handle_list_resources env)) \<and>
   released (snd (handle_read_resource env rid)) \<and>
   released (snd (handle_call_tool env name arguments))"
proof -
  have "released (snd (list_resources env))"
    unfolding list_resources_def list_resources_try_def
    by (intro except_finally_released with_cursor_no_conn list_resources_with_no_conn)
  moreover have "released (snd (get_resource env rid))"
    unfolding get_resource_def get_resource_try_def
    by (intro except_finally_released with_cursor_no_conn get_resource_with_no_conn)
  moreover have "released (snd (execute_query env request))"
    unfolding execute_query_def execute_query_try_def
    by (intro except_finally_released with_cursor_no_conn execute_query_with_no_conn)
  moreover have "released (snd (handle_list_resources env))"
    unfolding handle_list_resources_def handle_list_resources_try_def
    by (intro finally_released with_cursor_no_conn handle_list_resources_with_no_conn)
  moreover have "released (snd (handle_read_resource env rid))"
    unfolding handle_read_resource_def handle_read_resource_try_def
    by (intro finally_released with_cursor_no_conn handle_read_resource_with_no_conn)
  moreover have "released (snd (handle_call_tool env name arguments))"
  proof (cases "name = ''execute_query''")
    case True
    then show ?thesis
      unfolding handle_call_tool_def handle_call_tool_try_def
      by (simp add: finally_released with_cursor_no_conn handle_call_tool_with_no_conn)
  next
    case False
    then show ?thesis by (simp add: handle_call_tool_def released_def)
  qed
  ultimately show ?thesis by blast
qed

theorem connection_released_witness:
  "released (snd (list_resources sample_env)) \<and>
   released (snd (get_resource sample_env ''ghost'')) \<and>
   released (snd (execute_query offline_env \<lparr>query = ''SELECT NOW()'', parameters = None\<rparr>)) \<and>
   released (snd (handle_list_resources offline_env)) \<and>
   released (snd (handle_read_resource sample_env ''files'')) \<and>
   released (snd (handle_call_tool sample_env ''execute_query''
                    \<lparr>arg_query = None, arg_parameters = None\<rparr>))"
  using connection_released [of sample_env "''ghost''"]
    connection_released [of offline_env _ "\<lparr>query = ''SELECT NOW()'', parameters = None\<rparr>"]
    connection_released [of sample_env "''files''" _ "''execute_query''"
      "\<lparr>arg_query = None, arg_parameters = None\<rparr>"]
  by blast

text \<open>
  C3. Claimed: on both front-ends every binary value of a row read from a table is
  replaced by \<open><binary data length=N>\<close>. The HTTP reader does so (lemma
  \<open>mask_row_distinct\<close>); the tool reader has no such loop and passes the rows to
  \<open>json.dumps\<close> as fetched, which raises on the first binary value. On the sample
  database, reading the table \<open>files\<close>:
\<close>

theorem tool_reader_keeps_binary:
  "fst (get_resource sample_env ''files'') =
     Inr (Data [[(''id'', PInt 1), (''body'', PStr ''<binary data length=3>'')]]) \<and>
   fst (handle_read_resource sample_env ''files'') =
     Inl (TypeError ''Object of type bytes is not JSON serializable'')"
  by (simp add: get_resource_def get_resource_try_def get_resource_with_def
      handle_read_resource_def handle_read_resource_try_def handle_read_resource_with_def
      frame_defs sample_defs not_row_def fetchone_def fetchall_def mask_row_def
      binary_placeholder_def json_dumps_def and_then_def str_nat_3)

text \<open>
  C4. On each of the three HTTP routes a failure to open the connection is answered with
  status 500, and on \<open>POST /query\<close> a statement that the driver rejects is answered
  with status 400. (The 500 is the framework's answer to the \<open>UnboundLocalError\<close> of
  the \<open>finally\<close> clause, see \<open>connection_failure_outcome\<close>.)
\<close>

theorem connection_failure_500_query_failure_400:
  "(s2_connect env = Some e \<longrightarrow>
      http_status (fst (list_resources env)) = Some 500 \<and>
      http_status (fst (get_resource env rid)) = Some 500 \<and>
      http_status (fst (execute_query env request)) = Some 500) \<and>
   (executed (snd (execute_query env request)) = [(sql, ps)] \<and>
    cur_execute env sql ps = Inl e' \<longrightarrow>
      http_status (fst (execute_query env request)) = Some 400)"
proof (intro conjI impI)
  assume "s2_connect env = Some e"
  from connection_failure_outcome [OF this]
  show "http_status (fst (list_resources env)) = Some 500"
    and "http_status (fst (get_resource env rid)) = Some 500"
    and "http_status (fst (execute_query env request)) = Some 500"
    by (simp_all add: http_status_def)
next
  assume "executed (snd (execute_query env request)) = [(sql, ps)] \<and>
    cur_execute env sql ps = Inl e'"
  then show "http_status (fst (execute_query env request)) = Some 400"
    by (auto simp: execute_query_def execute_query_try_def execute_query_with_def
        http_status_def frame_defs split: option.splits sum.splits prod.splits if_splits)
qed

theorem connection_failure_500_query_failure_400_witness:
  "s2_connect offline_env = Some (DriverError ''Connection refused'') \<and>
   http_status (fst (list_resources offline_env)) = Some 500 \<and>
   http_status (fst (get_resource offline_env ''files'')) = Some 500 \<and>
   http_status
     (fst (execute_query offline_env \<lparr>query = ''SELECT NOW()'', parameters = None\<rparr>)) = Some 500 \<and>
   executed (snd (execute_query sample_env \<lparr>query = ''SELECT NOW('', parameters = None\<rparr>)) =
     [(''SELECT NOW('', None)] \<and>
   cur_execute sample_env ''SELECT NOW('' None =
     Inl (DriverError ''You have an error in your SQL syntax'') \<and>
   http_status
     (fst (execute_query sample_env \<lparr>query = ''SELECT NOW('', parameters = None\<rparr>)) = Some 400"
proof -
  have down: "s2_connect offline_env = Some (DriverError ''Connection refused'')"
    by (simp add: sample_defs)
  have bad:
    "executed (snd (execute_query sample_env \<lparr>query = ''SELECT NOW('', parameters = None\<rparr>)) =
       [(''SELECT NOW('', None)] \<and>
     cur_execute sample_env ''SELECT NOW('' None =
       Inl (DriverError ''You have an error in your SQL syntax'')"
    by (simp add: execute_query_def execute_query_try_def execute_query_with_def
        frame_defs sample_defs truthy_opt_def)
  from down bad
    connection_failure_500_query_failure_400
      [of offline_env "DriverError ''Connection refused''" "''files''"
        "\<lparr>query = ''SELECT NOW()'', parameters = None\<rparr>"]
    connection_failure_500_query_failure_400
      [of sample_env _ _ "\<lparr>query = ''SELECT NOW('', parameters = None\<rparr>"
        "''SELECT NOW(''" None "DriverError ''You have an error in your SQL syntax''"]
  show ?thesis by blast
qed

text \<open>
  C5. Claimed: on both front-ends a statement with a column description yields exactly
  \<open>{"data": rows}\<close>, any other statement exactly \<open>{"affected_rows": n}\<close>. Both
  executors select the shape that way (\<open>execute_query_shape\<close>,
  \<open>handle_call_tool_shape\<close>), but the tool executor then serialises the rows with
  \<open>json.dumps\<close> unconverted, so a result set holding a datetime or binary value yields
  no result at all. On the sample database, for \<open>SELECT NOW()\<close>:
\<close>

theorem tool_executor_rejects_datetime_rows:
  "cur_execute sample_env ''SELECT NOW()'' None =
     Inr \<lparr>description = Some [''NOW()''],
          result_rows = [[(''NOW()'', PDateTime (DateTime 2024 3 20 10 0 0 0))]],
          rowcount = 1\<rparr> \<and>
   fst (execute_query sample_env \<lparr>query = ''SELECT NOW()'', parameters = None\<rparr>) =
     Inr (Data [[(''NOW()'', PDateTime (DateTime 2024 3 20 10 0 0 0))]]) \<and>
   fst (handle_call_tool sample_env ''execute_query''
          \<lparr>arg_query = Some ''SELECT NOW()'', arg_parameters = None\<rparr>) =
     Inl (TypeError ''Object of type datetime is not JSON serializable'')"
  by (simp add: execute_query_def execute_query_try_def execute_query_with_def
      handle_call_tool_def handle_call_tool_try_def handle_call_tool_with_def
      frame_defs sample_defs truthy_opt_def has_description_def fetchall_def
      json_dumps_def and_then_def)

text \<open>
  C6. Claimed: the table reader runs the parameterised existence check first, never
  executes the interpolated \<open>SELECT\<close> when the table is absent, and an absent table
  always fails with a not-found error. The order holds on both front-ends
  (\<open>read_follows_check\<close>), and the tool handler fails with
  \<open>ValueError("Resource not found")\<close>. The HTTP request does not fail with the
  not-found error: the \<open>HTTPException(404)\<close> raised after the check is caught by the
  handler's own \<open>except Exception\<close> clause, and what the request fails with is status
  500 (the defect of C1). On the sample database, for the absent table \<open>ghost\<close>:
\<close>

theorem reader_not_found_reported_as_500:
  "table_absent sample_env ''ghost'' \<and>
   executed (snd (get_resource sample_env ''ghost'')) =
     [(EXISTS_QUERY, Some (PTuple [PStr ''ghost'']))] \<and>
   fst (get_resource sample_env ''ghost'') =
     Inl (HTTPException 500 ''404: Resource not found'') \<and>
   fst (get_resource sample_env ''ghost'') \<noteq>
     Inl (HTTPException 404 ''Resource not found'') \<and>
   executed (snd (handle_read_resource sample_env ''ghost'')) =
     [(EXISTS_QUERY, Some (PTuple [PStr ''ghost'']))] \<and>
   fst (handle_read_resource sample_env ''ghost'') = Inl (ValueError ''Resource not found'')"
  by (simp add: get_resource_def get_resource_try_def get_resource_with_def
      handle_read_resource_def handle_read_resource_try_def handle_read_resource_with_def
      table_absent_def frame_defs sample_defs not_row_def fetchone_def str_nat_404)

text \<open>
  C7. A tool call whose name is not \<open>execute_query\<close> raises
  \<open>ValueError("Unknown tool: <name>")\<close> and has no effect at all: no connection, no
  cursor, no statement.
\<close>

theorem unknown_tool_rejected:
  "name \<noteq> ''execute_query'' \<Longrightarrow>
   handle_call_tool env name arguments =
     (Inl (ValueError (''Unknown tool: '' @ name)), [])"
  by (simp add: handle_call_tool_def)

theorem unknown_tool_rejected_witness:
  "''drop_tables'' \<noteq> ''execute_query'' \<and>
   handle_call_tool sample_env ''drop_tables''
     \<lparr>arg_query = Some ''DELETE FROM notes'', arg_parameters = None\<rparr> =
   (Inl (ValueError ''Unknown tool: drop_tables''), [])"
  using unknown_tool_rejected [of "''drop_tables''" sample_env
     "\<lparr>arg_query = Some ''DELETE FROM notes'', arg_parameters = None\<rparr>"]
  by simp

text \<open>
  C8. The query executor hands the driver exactly one statement once connection and
  cursor are open (none otherwise, and none when a tool call has no \<open>query\<close>
  argument), and its text is the caller's query string whatever the parameters are: a
  parameter object that is true as a condition travels beside the text as the second
  argument of \<open>execute\<close>, an omitted or empty one is not passed.
\<close>

theorem statement_text_unchanged:
  "executed (snd (execute_query env request)) =
     (if s2_connect env = None \<and> conn_cursor env = None
      then [(query request,
             case parameters request of
               None \<Rightarrow> None
             | Some d \<Rightarrow> if d = [] then None else Some (PDict d))]
      else []) \<and>
   executed (snd (handle_call_tool env ''execute_query'' arguments)) =
     (if s2_connect env = None \<and> conn_cursor env = None
      then (case arg_query arguments of
              None \<Rightarrow> []
            | Some q \<Rightarrow>
                [(q, case arg_parameters arguments of
                       None \<Rightarrow> None
                     | Some p \<Rightarrow> if truthy_params p then Some p else None)])
      else [])"
  by (auto simp: execute_query_def execute_query_try_def execute_query_with_def
      handle_call_tool_def handle_call_tool_try_def handle_call_tool_with_def
      truthy_opt_def frame_defs split: option.splits sum.splits prod.splits)

theorem statement_text_unchanged_witness:
  "executed (snd (execute_query sample_env
       \<lparr>query = ''SELECT id FROM files WHERE id > %(low)s'',
        parameters = Some [(''low'', PInt 0)]\<rparr>)) =
     [(''SELECT id FROM files WHERE id > %(low)s'', Some (PDict [(''low'', PInt 0)]))] \<and>
   executed (snd (handle_call_tool sample_env ''execute_query''
       \<lparr>arg_query = Some ''SELECT id FROM files WHERE id > %(low)s'',
        arg_parameters = Some (PDict [(''low'', PInt 0)])\<rparr>)) =
     [(''SELECT id FROM files WHERE id > %(low)s'', Some (PDict [(''low'', PInt 0)]))]"
  using statement_text_unchanged [of sample_env
      "\<lparr>query = ''SELECT id FROM files WHERE id > %(low)s'',
        parameters = Some [(''low'', PInt 0)]\<rparr>"
      "\<lparr>arg_query = Some ''SELECT id FROM files WHERE id > %(low)s'',
        arg_parameters = Some (PDict [(''low'', PInt 0)])\<rparr>"]
  by (simp add: sample_env_def)

text \<open>
  C9. Claimed: for every row of the metadata query the table lister emits one Resource
  with id the table name, type \<open>table\<close> and the attributes name, declared type, comment
  and \<open>created_at\<close>, in row order, on both front-ends. The HTTP lister does so
  (\<open>list_resources_described\<close>). The tool lister emits nothing: it passes the same
  keywords to \<open>types.Resource\<close> of the \<open>mcp\<close> library, whose required fields \<open>uri\<close>
  and \<open>name\<close> are missing, so the first row raises \<open>ValidationError\<close>
  (\<open>handle_list_resources_fails\<close>). On the sample database with its two tables:
\<close>

theorem tool_lister_fails_validation:
  "cur_execute sample_env TABLES_QUERY None =
     Inr \<lparr>description =
            Some [''TABLE_NAME'', ''TABLE_TYPE'', ''TABLE_COMMENT'', ''CREATE_TIME''],
          result_rows = sample_tables, rowcount = 2\<rparr> \<and>
   fst (list_resources sample_env) =
     Inr [\<lparr>res_id = ''files'', res_type = ''table'',
           attributes =
             [(''name'', PStr ''files''), (''type'', PStr ''BASE TABLE''),
              (''comment'', PStr ''uploads''),
              (''created_at'', PStr ''2024-03-20T10:00:00'')]\<rparr>,
          \<lparr>res_id = ''notes'', res_type = ''table'',
           attributes =
             [(''name'', PStr ''notes''), (''type'', PStr ''VIEW''), (''comment'', PStr []),
              (''created_at'', PNone)]\<rparr>] \<and>
   fst (handle_list_resources sample_env) = Inl (ValidationError ''uri'')"
proof -
  let ?cur = "\<lparr>description =
                  Some [''TABLE_NAME'', ''TABLE_TYPE'', ''TABLE_COMMENT'', ''CREATE_TIME''],
                result_rows = sample_tables, rowcount = 2\<rparr>"
  let ?infos =
    "[\<lparr>table_name = ''files'', table_type = PStr ''BASE TABLE'',
       table_comment = PStr ''uploads'',
       create_time = Some (DateTime 2024 3 20 10 0 0 0)\<rparr>,
      \<lparr>table_name = ''notes'', table_type = PStr ''VIEW'', table_comment = PStr [],
       create_time = None\<rparr>]"
  have up: "s2_connect sample_env = None" "conn_cursor sample_env = None"
    by (simp_all add: sample_env_def)
  have run: "cur_execute sample_env TABLES_QUERY None = Inr ?cur"
    by (simp add: sample_defs)
  have rows: "result_rows ?cur = map metadata_row ?infos"
    by (simp add: sample_tables_def metadata_row_def)
  have iso: "isoformat (DateTime 2024 3 20 10 0 0 0) = ''2024-03-20T10:00:00''"
    by code_simp
  have "?infos \<noteq> []" by simp
  from list_resources_described [OF up run rows]
    handle_list_resources_fails [OF up run rows this] run
  show ?thesis by (simp add: described_resource_def iso del: isoformat.simps)
qed

text \<open>
  C10. A query request whose parameters are an empty mapping is handled exactly as the
  same request with the parameters omitted, on both front-ends (same result, same
  effects); once connection and cursor are open the statement is executed, and it is
  handed to the driver with no parameter object.
\<close>

theorem empty_parameters_as_omitted:
  "execute_query env \<lparr>query = q, parameters = Some []\<rparr> =
     execute_query env \<lparr>query = q, parameters = None\<rparr> \<and>
   handle_call_tool env name \<lparr>arg_query = aq, arg_parameters = Some (PDict [])\<rparr> =
     handle_call_tool env name \<lparr>arg_query = aq, arg_parameters = None\<rparr> \<and>
   executed (snd (execute_query env \<lparr>query = q, parameters = Some []\<rparr>)) =
     (if s2_connect env = None \<and> conn_cursor env = None then [(q, None)] else []) \<and>
   executed (snd (handle_call_tool env ''execute_query''
                    \<lparr>arg_query = Some q, arg_parameters = Some (PDict [])\<rparr>)) =
     (if s2_connect env = None \<and> conn_cursor env = None then [(q, None)] else [])"
proof -
  have same_http:
    "execute_query_with env \<lparr>query = q, parameters = Some []\<rparr> =
     execute_query_with env \<lparr>query = q, parameters = None\<rparr>"
    by (simp add: execute_query_with_def truthy_opt_def)
  have same_tool:
    "handle_call_tool_with env \<lparr>arg_query = aq, arg_parameters = Some (PDict [])\<rparr> =
     handle_call_tool_with env \<lparr>arg_query = aq, arg_parameters = None\<rparr>"
    by (simp add: handle_call_tool_with_def truthy_opt_def)
  have "execute_query env \<lparr>query = q, parameters = Some []\<rparr> =
        execute_query env \<lparr>query = q, parameters = None\<rparr>"
    by (simp add: execute_query_def execute_query_try_def same_http)
  moreover have
    "handle_call_tool env name \<lparr>arg_query = aq, arg_parameters = Some (PDict [])\<rparr> =
     handle_call_tool env name \<lparr>arg_query = aq, arg_parameters = None\<rparr>"
    by (simp add: handle_call_tool_def handle_call_tool_try_def same_tool)
  moreover have
    "executed (snd (execute_query env \<lparr>query = q, parameters = Some []\<rparr>)) =
       (if s2_connect env = None \<and> conn_cursor env = None then [(q, None)] else [])"
    by (auto simp: execute_query_def execute_query_try_def execute_query_with_def
        truthy_opt_def frame_defs split: option.splits sum.splits)
  moreover have
    "executed (snd (handle_call_tool env ''execute_query''
                      \<lparr>arg_query = Some q, arg_parameters = Some (PDict [])\<rparr>)) =
       (if s2_connect env = None \<and> conn_cursor env = None then [(q, None)] else [])"
    by (auto simp: handle_call_tool_def handle_call_tool_try_def handle_call_tool_with_def
        truthy_opt_def frame_defs split: option.splits sum.splits)
  ultimately show ?thesis by blast
qed

theorem empty_parameters_as_omitted_witness:
  "execute_query sample_env \<lparr>query = ''DELETE FROM notes'', parameters = Some []\<rparr> =
     (Inr (AffectedRows 3),
      [Connect, Cursor, Execute ''DELETE FROM notes'' None, CursorClose, Close]) \<and>
   execute_query sample_env \<lparr>query = ''DELETE FROM notes'', parameters = None\<rparr> =
     (Inr (AffectedRows 3),
      [Connect, Cursor, Execute ''DELETE FROM notes'' None, CursorClose, Close]) \<and>
   handle_call_tool sample_env ''execute_query''
       \<lparr>arg_query = Some ''DELETE FROM notes'', arg_parameters = Some (PDict [])\<rparr> =
     (Inr [\<lparr>tc_type = ''text'', tc_text = JsonText (AffectedRows 3)\<rparr>],
      [Connect, Cursor, Execute ''DELETE FROM notes'' None, CursorClose, Close]) \<and>
   handle_call_tool sample_env ''execute_query''
       \<lparr>arg_query = Some ''DELETE FROM notes'', arg_parameters = None\<rparr> =
     (Inr [\<lparr>tc_type = ''text'', tc_text = JsonText (AffectedRows 3)\<rparr>],
      [Connect, Cursor, Execute ''DELETE FROM notes'' None, CursorClose, Close]) \<and>
   executed (snd (execute_query sample_env
                    \<lparr>query = ''DELETE FROM notes'', parameters = Some []\<rparr>)) =
     [(''DELETE FROM notes'', None)] \<and>
   executed (snd (handle_call_tool sample_env ''execute_query''
                    \<lparr>arg_query = Some ''DELETE FROM notes'',
                     arg_parameters = Some (PDict [])\<rparr>)) =
     [(''DELETE FROM notes'', None)]"
proof -
  have http:
    "execute_query sample_env \<lparr>query = ''DELETE FROM notes'', parameters = None\<rparr> =
       (Inr (AffectedRows 3),
        [Connect, Cursor, Execute ''DELETE FROM notes'' None, CursorClose, Close])"
    by (simp add: execute_query_def execute_query_try_def execute_query_with_def
        frame_defs sample_defs truthy_opt_def has_description_def)
  have tool:
    "handle_call_tool sample_env ''execute_query''
         \<lparr>arg_query = Some ''DELETE FROM notes'', arg_parameters = None\<rparr> =
       (Inr [\<lparr>tc_type = ''text'', tc_text = JsonText (AffectedRows 3)\<rparr>],
        [Connect, Cursor, Execute ''DELETE FROM notes'' None, CursorClose, Close])"
    by (simp add: handle_call_tool_def handle_call_tool_try_def handle_call_tool_with_def
        frame_defs sample_defs truthy_opt_def has_description_def json_dumps_def
        and_then_def)
  from http tool
    empty_parameters_as_omitted
      [of sample_env "''DELETE FROM notes''" "''execute_query''"
        "Some ''DELETE FROM notes''"]
  show ?thesis by (simp add: sample_env_def)
qed

end
